theory Spec2Isabelle
  imports Main "HOL-Library.AList" "HOL-Library.Multiset"
begin

section \<open>JavaScript values met by the access-control code\<close>

text \<open>
  An object such as \<^verbatim>\<open>{ id: data.id, username: data.username }\<close> is a list of
  properties in insertion order. A property value is a string, or \<open>None\<close> for
  \<^verbatim>\<open>undefined\<close>. Reading a property that the object does not have gives
  \<^verbatim>\<open>undefined\<close> as well.
\<close>

type_synonym js_object = "(string \<times> string option) list"

definition get_prop :: "js_object \<Rightarrow> string \<Rightarrow> string option" where
  "get_prop obj k = (case map_of obj k of None \<Rightarrow> None | Some v \<Rightarrow> v)"

text \<open>\<^verbatim>\<open>!v\<close> on a string or undefined: undefined and the empty string are falsy.\<close>

definition falsy :: "string option \<Rightarrow> bool" where
  "falsy v = (case v of None \<Rightarrow> True | Some s \<Rightarrow> s = [])"

text \<open>\<^verbatim>\<open>v || d\<close> with a string default.\<close>

definition or_default :: "string option \<Rightarrow> string \<Rightarrow> string" where
  "or_default v d = (case v of None \<Rightarrow> d | Some s \<Rightarrow> if s = [] then d else s)"

text \<open>The property key that \<^verbatim>\<open>obj[v]\<close> uses for a string or undefined \<open>v\<close>.\<close>

definition ToPropertyKey :: "string option \<Rightarrow> string" where
  "ToPropertyKey v = (case v of None \<Rightarrow> ''undefined'' | Some s \<Rightarrow> s)"

text \<open>
  \<^verbatim>\<open>res.json(obj)\<close> serialises with \<^verbatim>\<open>JSON.stringify\<close>, which leaves out every
  property whose value is undefined.
\<close>

fun stringify :: "js_object \<Rightarrow> (string \<times> string) list" where
  "stringify [] = []"
| "stringify ((k, None) # ps) = stringify ps"
| "stringify ((k, Some v) # ps) = (k, v) # stringify ps"

text \<open>
  What a lookup in the object literal \<^verbatim>\<open>{ admin: 3, technician: 2, user: 1 }\<close> can
  evaluate to: one of its own numbers, undefined, or a member that every object literal
  inherits from \<^verbatim>\<open>Object.prototype\<close> (a function, or the prototype object itself for
  \<^verbatim>\<open>__proto__\<close>).
\<close>

datatype jsval = JSUndefined | JSNumber int | JSInherited

definition Object_prototype :: "string list" where
  "Object_prototype =
     [''constructor'', ''__defineGetter__'', ''__defineSetter__'', ''hasOwnProperty'',
      ''__lookupGetter__'', ''__lookupSetter__'', ''isPrototypeOf'',
      ''propertyIsEnumerable'', ''toString'', ''valueOf'', ''__proto__'',
      ''toLocaleString'']"

text \<open>ToNumber; \<open>None\<close> is NaN. A function or plain object converts to NaN.\<close>

fun ToNumber :: "jsval \<Rightarrow> int option" where
  "ToNumber JSUndefined = None"
| "ToNumber (JSNumber n) = Some n"
| "ToNumber JSInherited = None"

fun truthy :: "jsval \<Rightarrow> bool" where
  "truthy JSUndefined = False"
| "truthy (JSNumber n) = (n \<noteq> 0)"
| "truthy JSInherited = True"

text \<open>\<^verbatim>\<open>a || b\<close>, \<^verbatim>\<open>a < b\<close> and \<^verbatim>\<open>a >= b\<close>: a comparison with NaN is false.\<close>

definition js_or :: "jsval \<Rightarrow> jsval \<Rightarrow> jsval" where
  "js_or a b = (if truthy a then a else b)"

definition js_lt :: "jsval \<Rightarrow> jsval \<Rightarrow> bool" where
  "js_lt a b = (case (ToNumber a, ToNumber b) of (Some x, Some y) \<Rightarrow> x < y | _ \<Rightarrow> False)"

definition js_ge :: "jsval \<Rightarrow> jsval \<Rightarrow> bool" where
  "js_ge a b = (case (ToNumber a, ToNumber b) of (Some x, Some y) \<Rightarrow> x \<ge> y | _ \<Rightarrow> False)"


section \<open>Role hierarchy (client/src/hooks/use-auth.tsx)\<close>

text \<open>The type \<^verbatim>\<open>UserRole = "admin" | "technician" | "user"\<close>.\<close>

datatype UserRole = Admin | Technician | User

fun role_name :: "UserRole \<Rightarrow> string" where
  "role_name Admin = ''admin''"
| "role_name Technician = ''technician''"
| "role_name User = ''user''"

text \<open>\<^verbatim>\<open>roleHierarchy[key]\<close> for the literal \<^verbatim>\<open>{ admin: 3, technician: 2, user: 1 }\<close>.\<close>

definition roleHierarchy :: "string \<Rightarrow> jsval" where
  "roleHierarchy key =
     (if key = ''admin'' then JSNumber 3
      else if key = ''technician'' then JSNumber 2
      else if key = ''user'' then JSNumber 1
      else if key \<in> set Object_prototype then JSInherited
      else JSUndefined)"

definition hasRole :: "string \<Rightarrow> UserRole \<Rightarrow> bool" where
  "hasRole userRole requiredRole =
     js_ge (roleHierarchy userRole) (roleHierarchy (role_name requiredRole))"

definition canAccessAnalytics :: "string \<Rightarrow> bool" where
  "canAccessAnalytics userRole = hasRole userRole Technician"

definition canManageSensors :: "string \<Rightarrow> bool" where
  "canManageSensors userRole = hasRole userRole Technician"

definition canExportData :: "string \<Rightarrow> bool" where
  "canExportData userRole = hasRole userRole Technician"

definition canManageUsers :: "string \<Rightarrow> bool" where
  "canManageUsers userRole = hasRole userRole Admin"

definition canAccessAdvancedSettings :: "string \<Rightarrow> bool" where
  "canAccessAdvancedSettings userRole = hasRole userRole Admin"

text \<open>
  The rank of the specification, in its own words: admin 3, technician 2, user 1, and 0
  for any unrecognised value. The code has no function of this name; \<open>hasRole\<close> and
  the server middleware are compared with it.
\<close>

definition rank_spec :: "string \<Rightarrow> nat" where
  "rank_spec r = (if r = ''admin'' then 3 else if r = ''technician'' then 2
             else if r = ''user'' then 1 else 0)"


section \<open>Client auth context (AuthProvider)\<close>

text \<open>
  The cached identity is the parsed JSON of the login or \<^verbatim>\<open>/api/user\<close> response, or
  null. Each closure is \<^verbatim>\<open>() => user ? pred(user.role || "user") : false\<close>.
\<close>

type_synonym cached_user = "(string \<times> string) list option"

definition cached_role :: "(string \<times> string) list \<Rightarrow> string" where
  "cached_role user = or_default (map_of user ''role'') ''user''"

definition checkRole :: "cached_user \<Rightarrow> UserRole \<Rightarrow> bool" where
  "checkRole user requiredRole =
     (case user of None \<Rightarrow> False | Some u \<Rightarrow> hasRole (cached_role u) requiredRole)"

datatype permission =
    CanAccessAnalytics | CanManageSensors | CanExportData
  | CanManageUsers | CanAccessAdvancedSettings | CanAccessAdminPanel

fun auth_context :: "cached_user \<Rightarrow> permission \<Rightarrow> bool" where
  "auth_context None p = False"
| "auth_context (Some u) CanAccessAnalytics = canAccessAnalytics (cached_role u)"
| "auth_context (Some u) CanManageSensors = canManageSensors (cached_role u)"
| "auth_context (Some u) CanExportData = canExportData (cached_role u)"
| "auth_context (Some u) CanManageUsers = canManageUsers (cached_role u)"
| "auth_context (Some u) CanAccessAdvancedSettings = canAccessAdvancedSettings (cached_role u)"
| "auth_context (Some u) CanAccessAdminPanel = canManageUsers (cached_role u)"

text \<open>
  The minimum role of each permission, as the specification lists it: analytics, sensor
  management and data export need technician; user management, advanced settings and the
  admin panel need admin.
\<close>

fun minRole_spec :: "permission \<Rightarrow> UserRole" where
  "minRole_spec CanAccessAnalytics = Technician"
| "minRole_spec CanManageSensors = Technician"
| "minRole_spec CanExportData = Technician"
| "minRole_spec CanManageUsers = Admin"
| "minRole_spec CanAccessAdvancedSettings = Admin"
| "minRole_spec CanAccessAdminPanel = Admin"


section \<open>Requests, responses and the authorization middleware (server/auth.ts)\<close>

text \<open>
  Of a request the handlers read \<^verbatim>\<open>req.sessionID\<close>, \<^verbatim>\<open>req.session.user\<close>,
  \<^verbatim>\<open>req.body\<close> (undefined when no body was parsed) and \<^verbatim>\<open>req.params.id\<close>.
\<close>

record request =
  sessionID :: string
  session_user :: "js_object option"
  body :: "js_object option"
  params_id :: string

datatype 'a payload =
    JsonObj "(string \<times> string) list"
  | JsonArray "'a list"
  | Text string

type_synonym 'a response = "nat \<times> 'a payload"

datatype 'a outcome = Next | Respond "'a response"

definition requireAuth :: "request \<Rightarrow> 'a outcome" where
  "requireAuth req =
     (case session_user req of
        None \<Rightarrow> Respond (401, JsonObj [(''error'', ''Authentication required'')])
      | Some user \<Rightarrow> Next)"

definition requireRole :: "UserRole \<Rightarrow> request \<Rightarrow> 'a outcome" where
  "requireRole requiredRole req =
     (case session_user req of
        None \<Rightarrow> Respond (401, JsonObj [(''error'', ''Authentication required'')])
      | Some user \<Rightarrow>
          (let userLevel = js_or (roleHierarchy (ToPropertyKey (get_prop user ''role''))) (JSNumber 0);
               requiredLevel = roleHierarchy (role_name requiredRole)
           in if js_lt userLevel requiredLevel
              then Respond (403, JsonObj [(''error'', ''Insufficient permissions'')])
              else Next))"


section \<open>Sessions (express-session over the in-memory store)\<close>

text \<open>
  \<^verbatim>\<open>storage.sessionStore\<close> is the \<^verbatim>\<open>MemoryStore\<close> that \<^verbatim>\<open>MemStorage\<close> constructs. It
  maps a session id to the user object saved in that session. The session middleware is
  configured with \<^verbatim>\<open>resave: false\<close> and \<^verbatim>\<open>saveUninitialized: false\<close>: a session
  without data is never written.

  The store's \<^verbatim>\<open>destroy(sid, cb)\<close> deletes the entry of \<open>sid\<close> and calls back without
  an error, whether or not an entry was there. The result is the error handed to the
  callback and the store afterwards.
\<close>

type_synonym session_store = "string \<rightharpoonup> js_object"

definition MemoryStore_destroy ::
  "session_store \<Rightarrow> string \<Rightarrow> string option \<times> session_store" where
  "MemoryStore_destroy store sid = (None, store(sid := None))"

text \<open>
  The handlers call two operations of the session package; each hands the store's error
  to the handler's callback.
  \<^item> \<^verbatim>\<open>req.session.regenerate(cb)\<close> destroys the store entry of the current session id
    and installs an empty session under a newly generated id. The new id is produced
    by the package's random generator and is an input here.
  \<^item> \<^verbatim>\<open>req.session.destroy(cb)\<close> destroys the store entry of the current session id
    and removes \<^verbatim>\<open>req.session\<close>.
  When the response ends, a session that holds data is written to the store under its id.
\<close>

definition regenerate ::
  "string \<Rightarrow> request \<Rightarrow> session_store \<Rightarrow> string option \<times> request \<times> session_store" where
  "regenerate newID req store =
     (let (err, store') = MemoryStore_destroy store (sessionID req)
      in (err, req\<lparr>sessionID := newID, session_user := None\<rparr>, store'))"

definition destroy ::
  "request \<Rightarrow> session_store \<Rightarrow> string option \<times> request \<times> session_store" where
  "destroy req store =
     (let (err, store') = MemoryStore_destroy store (sessionID req)
      in (err, req\<lparr>session_user := None\<rparr>, store'))"

definition end_of_response :: "request \<Rightarrow> session_store \<Rightarrow> session_store" where
  "end_of_response req store =
     (case session_user req of None \<Rightarrow> store | Some user \<Rightarrow> store(sessionID req \<mapsto> user))"


section \<open>Authentication routes (setupAuth in server/auth.ts)\<close>

text \<open>
  The outcome of \<^verbatim>\<open>fetch(FASTAPI_BASE_URL + "/login")\<close> for the credentials of the
  request: the call rejects, or it answers with a status and a body. Of the body the
  handler needs to know: whether reading it throws (then \<^verbatim>\<open>response.text()\<close> and
  \<^verbatim>\<open>response.json()\<close> both throw); whether it is not JSON (then only
  \<^verbatim>\<open>response.json()\<close> throws); whether it is the JSON \<^verbatim>\<open>null\<close> (then the first
  property access throws); or else its properties. A JSON value that is neither null nor
  an object has none of the properties that the handler reads.
\<close>

datatype body_read = ReadFails | NotJson | JsonNull | Json js_object

datatype fetch_result = Unreachable | Reply nat body_read

text \<open>
  What the surroundings of one login request decide: the collaborator's answer and the id
  that session regeneration generates.
\<close>

record login_env =
  FastAPI_login :: fetch_result
  new_sessionID :: string

text \<open>
  The object literal that the login handler writes three times: into the session before
  and after regeneration, and into the response.
\<close>

definition identity_fields :: "js_object \<Rightarrow> js_object" where
  "identity_fields data =
     [(''id'', get_prop data ''id''),
      (''username'', get_prop data ''username''),
      (''role'', get_prop data ''role''),
      (''access_token'', get_prop data ''access_token''),
      (''token_type'', get_prop data ''token_type'')]"

definition internal_error :: "'a response" where
  "internal_error = (500, JsonObj [(''error'', ''Internal server error'')])"

text \<open>The part of the login handler that follows a successful identity check.\<close>

definition establish_session ::
  "login_env \<Rightarrow> js_object \<Rightarrow> request \<Rightarrow> session_store
   \<Rightarrow> 'a response \<times> request \<times> session_store" where
  "establish_session env data req store =
     (let req1 = req\<lparr>session_user := Some (identity_fields data)\<rparr>;
          (err, req2, store2) = regenerate (new_sessionID env) req1 store
      in case err of
           Some e \<Rightarrow> ((500, JsonObj [(''error'', ''Session error'')]), req2, store2)
         | None \<Rightarrow>
             ((200, JsonObj (stringify (identity_fields data))),
              req2\<lparr>session_user := Some (identity_fields data)\<rparr>, store2))"

text \<open>
  \<^verbatim>\<open>POST /api/login\<close>. Destructuring an undefined \<^verbatim>\<open>req.body\<close> throws inside the
  \<^verbatim>\<open>try\<close>; \<^verbatim>\<open>!username || !password\<close> holds for a missing or empty field. On a
  failure status the body is read as text before the status is tested; on success it is
  parsed as JSON. Every throw is caught and answered with 500.
\<close>

definition login ::
  "login_env \<Rightarrow> request \<Rightarrow> session_store \<Rightarrow> 'a response \<times> request \<times> session_store" where
  "login env req store =
     (case body req of
        None \<Rightarrow> (internal_error, req, store)
      | Some b \<Rightarrow>
          if falsy (get_prop b ''username'') \<or> falsy (get_prop b ''password'')
          then ((400, JsonObj [(''error'', ''Username and password are required'')]),
                req, store)
          else
            (case FastAPI_login env of
               Unreachable \<Rightarrow> (internal_error, req, store)
             | Reply status read \<Rightarrow>
                 if \<not> (200 \<le> status \<and> status \<le> 299)
                 then (if read = ReadFails then (internal_error, req, store)
                       else if status = 401
                       then ((401, JsonObj [(''error'', ''Invalid username or password'')]),
                             req, store)
                       else (internal_error, req, store))
                 else
                   (case read of
                      Json data \<Rightarrow> establish_session env data req store
                    | _ \<Rightarrow> (internal_error, req, store))))"

text \<open>\<^verbatim>\<open>POST /api/logout\<close>; \<^verbatim>\<open>res.sendStatus(200)\<close> sends the text \<^verbatim>\<open>OK\<close>.\<close>

definition logout ::
  "request \<Rightarrow> session_store \<Rightarrow> 'a response \<times> request \<times> session_store" where
  "logout req store =
     (let (err, req', store') = destroy req store
      in case err of
           Some e \<Rightarrow> ((500, JsonObj [(''error'', ''Logout failed'')]), req', store')
         | None \<Rightarrow> ((200, Text ''OK''), req', store'))"

text \<open>\<^verbatim>\<open>GET /api/user\<close>: the session user, reduced to id, username and role.\<close>

definition api_user :: "request \<Rightarrow> 'a response" where
  "api_user req =
     (case session_user req of
        None \<Rightarrow> (401, JsonObj [(''error'', ''Not authenticated'')])
      | Some user \<Rightarrow>
          (200, JsonObj (stringify [(''id'', get_prop user ''id''),
                                    (''username'', get_prop user ''username''),
                                    (''role'', get_prop user ''role'')])))"


section \<open>Storage (server/storage.ts)\<close>

text \<open>
  \<^verbatim>\<open>MemStorage\<close> holds one JavaScript \<^verbatim>\<open>Map\<close> per entity. A user is an object with
  the properties id, username, password and role. The columns of a sensor, and those of
  a measurement other than its timestamp, are not inspected by the routes below and are
  left as type parameters. A timestamp is \<^verbatim>\<open>getTime()\<close>, in milliseconds.
\<close>

record 'x measurement =
  timestamp :: int
  columns :: 'x

record ('s, 'x) MemStorage =
  users :: "string \<rightharpoonup> js_object"
  sensors :: "(string \<times> 's) list"
  measurements :: "(string \<times> 'x measurement) list"

definition updateUserRole ::
  "string \<Rightarrow> string \<Rightarrow> ('s, 'x) MemStorage \<Rightarrow> string + (js_object \<times> ('s, 'x) MemStorage)" where
  "updateUserRole uid role st =
     (case users st uid of
        None \<Rightarrow> Inl ''User not found''
      | Some user \<Rightarrow>
          (let updatedUser = AList.update ''role'' (Some role) user
           in Inr (updatedUser, st\<lparr>users := (users st)(uid \<mapsto> updatedUser)\<rparr>)))"

definition getSensors :: "('s, 'x) MemStorage \<Rightarrow> string + 's list" where
  "getSensors st = Inr (map snd (sensors st))"

text \<open>
  \<^verbatim>\<open>sort((a, b) => b.timestamp - a.timestamp)\<close>: newest first; the sort is stable.
\<close>

definition getMeasurements :: "('s, 'x) MemStorage \<Rightarrow> string + 'x measurement list" where
  "getMeasurements st = Inr (sort_key (\<lambda>m. - timestamp m) (map snd (measurements st)))"


section \<open>Routes (server/routes.ts)\<close>

text \<open>
  \<^verbatim>\<open>app.get(path, m1, ..., handler)\<close>: the middlewares run in order; the first that
  responds ends the request, and the handler runs when all of them call \<^verbatim>\<open>next()\<close>.
\<close>

fun run_middlewares :: "(request \<Rightarrow> 'a outcome) list \<Rightarrow> request \<Rightarrow> 'a outcome" where
  "run_middlewares [] req = Next"
| "run_middlewares (m # ms) req =
     (case m req of Next \<Rightarrow> run_middlewares ms req | Respond r \<Rightarrow> Respond r)"

definition route ::
  "(request \<Rightarrow> 'a outcome) list \<Rightarrow> (request \<Rightarrow> 'st \<Rightarrow> 'a response \<times> 'st)
   \<Rightarrow> request \<Rightarrow> 'st \<Rightarrow> 'a response \<times> 'st" where
  "route ms handler req st =
     (case run_middlewares ms req of Respond r \<Rightarrow> (r, st) | Next \<Rightarrow> handler req st)"

text \<open>
  \<^verbatim>\<open>GET /api/sensors\<close> and \<^verbatim>\<open>GET /api/measurements\<close>. The storage call is a parameter:
  a rejected promise (\<open>Inl\<close>) is caught and answered with 500.
\<close>

definition sensors_handler ::
  "('st \<Rightarrow> string + 's list) \<Rightarrow> request \<Rightarrow> 'st \<Rightarrow> 's response \<times> 'st" where
  "sensors_handler storage_getSensors req st =
     (case storage_getSensors st of
        Inr sensor_list \<Rightarrow> ((200, JsonArray sensor_list), st)
      | Inl error \<Rightarrow> ((500, JsonObj [(''message'', ''Failed to fetch sensors'')]), st))"

definition api_sensors ::
  "('st \<Rightarrow> string + 's list) \<Rightarrow> request \<Rightarrow> 'st \<Rightarrow> 's response \<times> 'st" where
  "api_sensors storage_getSensors = route [] (sensors_handler storage_getSensors)"

definition measurements_handler ::
  "('st \<Rightarrow> string + 'm list) \<Rightarrow> request \<Rightarrow> 'st \<Rightarrow> 'm response \<times> 'st" where
  "measurements_handler storage_getMeasurements req st =
     (case storage_getMeasurements st of
        Inr measurement_list \<Rightarrow> ((200, JsonArray measurement_list), st)
      | Inl error \<Rightarrow> ((500, JsonObj [(''message'', ''Failed to fetch measurements'')]), st))"

definition api_measurements ::
  "('st \<Rightarrow> string + 'm list) \<Rightarrow> request \<Rightarrow> 'st \<Rightarrow> 'm response \<times> 'st" where
  "api_measurements storage_getMeasurements =
     route [] (measurements_handler storage_getMeasurements)"

text \<open>\<^verbatim>\<open>PATCH /api/admin/users/:id/role\<close>, behind \<^verbatim>\<open>requireRole("admin")\<close>.\<close>

definition user_role_handler ::
  "request \<Rightarrow> ('s, 'x) MemStorage \<Rightarrow> 'a response \<times> ('s, 'x) MemStorage" where
  "user_role_handler req st =
     (case body req of
        None \<Rightarrow> ((500, JsonObj [(''message'', ''Failed to update user role'')]), st)
      | Some b \<Rightarrow>
          (case get_prop b ''role'' of
             None \<Rightarrow> ((400, JsonObj [(''message'', ''Invalid role'')]), st)
           | Some role \<Rightarrow>
               if role \<notin> set [''admin'', ''technician'', ''user'']
               then ((400, JsonObj [(''message'', ''Invalid role'')]), st)
               else
                 (case updateUserRole (params_id req) role st of
                    Inr (updatedUser, st') \<Rightarrow>
                      ((200, JsonObj (stringify (AList.delete ''password'' updatedUser))), st')
                  | Inl error \<Rightarrow>
                      if error = ''User not found''
                      then ((404, JsonObj [(''message'', ''User not found'')]), st)
                      else ((500, JsonObj [(''message'', ''Failed to update user role'')]), st))))"

definition api_admin_users_role ::
  "request \<Rightarrow> ('s, 'x) MemStorage \<Rightarrow> 'a response \<times> ('s, 'x) MemStorage" where
  "api_admin_users_role = route [requireRole Admin] user_role_handler"


section \<open>Example data\<close>

text \<open>
  Concrete inputs at which the theorems below are instantiated. The collaborator answers
  a login with an identity and a bearer token; one session is already in the store.
\<close>

definition example_identity :: js_object where
  "example_identity =
     [(''id'', Some ''1''), (''username'', Some ''admin''), (''role'', Some ''admin''),
      (''access_token'', Some ''eyJhbGciOi''), (''token_type'', Some ''bearer'')]"

definition example_env :: login_env where
  "example_env =
     \<lparr>FastAPI_login = Reply 200 (Json example_identity), new_sessionID = ''s2''\<rparr>"

definition example_unreachable_env :: login_env where
  "example_unreachable_env = \<lparr>FastAPI_login = Unreachable, new_sessionID = ''s2''\<rparr>"

definition example_rejecting_env :: login_env where
  "example_rejecting_env =
     \<lparr>FastAPI_login = Reply 401 (Json [(''detail'', Some ''Incorrect username or password'')]),
      new_sessionID = ''s2''\<rparr>"

definition example_session_store :: session_store where
  "example_session_store =
     map_of [(''s0'', [(''id'', Some ''3''), (''username'', Some ''tecnico''),
                       (''role'', Some ''technician'')])]"

definition example_login_request :: request where
  "example_login_request =
     \<lparr>sessionID = ''s1'', session_user = None,
      body = Some [(''username'', Some ''admin''), (''password'', Some ''admin123'')],
      params_id = []\<rparr>"

definition example_anonymous_request :: request where
  "example_anonymous_request =
     \<lparr>sessionID = ''s1'', session_user = None, body = Some [], params_id = []\<rparr>"

text \<open>
  A session whose role is the name of a member of \<^verbatim>\<open>Object.prototype\<close>, asking to
  change the role of user \<^verbatim>\<open>u2\<close> to admin.
\<close>

definition example_inherited_role_user :: js_object where
  "example_inherited_role_user =
     [(''id'', Some ''7''), (''username'', Some ''mallory''), (''role'', Some ''constructor''),
      (''access_token'', Some ''eyJhbGciOi''), (''token_type'', Some ''bearer'')]"

definition example_inherited_role_request :: request where
  "example_inherited_role_request =
     \<lparr>sessionID = ''s7'', session_user = Some example_inherited_role_user,
      body = Some [(''role'', Some ''admin'')], params_id = ''u2''\<rparr>"

definition example_admin_request :: request where
  "example_admin_request =
     \<lparr>sessionID = ''s3'', session_user = Some example_identity,
      body = Some [(''role'', Some ''technician'')], params_id = ''u2''\<rparr>"

definition example_storage :: "(unit, unit) MemStorage" where
  "example_storage =
     \<lparr>users = map_of
        [(''u1'', [(''id'', Some ''u1''), (''username'', Some ''admin''),
                   (''password'', Some ''bce24c11.24e49480''), (''role'', Some ''admin'')]),
         (''u2'', [(''id'', Some ''u2''), (''username'', Some ''cliente''),
                   (''password'', Some ''c57397b9.5e853a04''), (''role'', Some ''user'')])],
      sensors = [(''a'', ())],
      measurements = [(''m1'', \<lparr>timestamp = 10, columns = ()\<rparr>),
                      (''m2'', \<lparr>timestamp = 20, columns = ()\<rparr>)]\<rparr>"


section \<open>Properties of the role hierarchy\<close>

lemma roleHierarchy_role_name:
  "roleHierarchy (role_name r) = JSNumber (int (rank_spec (role_name r)))"
  by (cases r) (simp_all add: roleHierarchy_def rank_spec_def)

lemma rank_role_name_pos: "0 < rank_spec (role_name r)"
  by (cases r) (simp_all add: rank_spec_def)

lemma ToNumber_roleHierarchy:
  "ToNumber (roleHierarchy s) = (if 0 < rank_spec s then Some (int (rank_spec s)) else None)"
  by (simp add: roleHierarchy_def rank_spec_def)

lemma hasRole_rank: "hasRole a r = (rank_spec (role_name r) \<le> rank_spec a)"
proof (cases "0 < rank_spec a")
  case True
  then show ?thesis
    by (simp add: hasRole_def js_ge_def ToNumber_roleHierarchy roleHierarchy_role_name)
next
  case False
  with rank_role_name_pos [of r] show ?thesis
    by (simp add: hasRole_def js_ge_def ToNumber_roleHierarchy roleHierarchy_role_name)
qed

text \<open>
  The client's \<open>hasRole\<close> decides by the ranks of the specification on every string: for
  the three roles it compares the ranks 3, 2 and 1, and for any other string, of rank 0,
  it is false against every required role.
\<close>

lemma hasRole_matches_rank:
  "hasRole (role_name r1) r2 = (rank_spec (role_name r2) \<le> rank_spec (role_name r1))
   \<and> rank_spec (role_name Admin) = 3 \<and> rank_spec (role_name Technician) = 2
   \<and> rank_spec (role_name User) = 1
   \<and> (s \<notin> {''admin'', ''technician'', ''user''} \<longrightarrow> rank_spec s = 0 \<and> \<not> hasRole s r2)
   \<and> hasRole s r2 = (rank_spec (role_name r2) \<le> rank_spec s)"
proof -
  have "s \<notin> {''admin'', ''technician'', ''user''} \<Longrightarrow> rank_spec s = 0"
    by (simp add: rank_spec_def)
  moreover have "rank_spec s = 0 \<Longrightarrow> \<not> hasRole s r2"
    using rank_role_name_pos [of r2] by (simp add: hasRole_rank)
  ultimately show ?thesis
    by (simp add: hasRole_rank) (simp add: rank_spec_def)
qed

lemma hasRole_matches_rank_example:
  "hasRole (role_name Technician) User \<and> \<not> hasRole (role_name User) Admin
   \<and> ''constructor'' \<notin> {''admin'', ''technician'', ''user''}
   \<and> rank_spec ''constructor'' = 0 \<and> \<not> hasRole ''constructor'' User"
  using hasRole_matches_rank [of Technician User "''constructor''"]
        hasRole_matches_rank [of User Admin "''constructor''"]
  by (simp add: rank_spec_def)


section \<open>Properties of the authorization middleware\<close>

text \<open>
  The level that the middleware computes, \<^verbatim>\<open>roleHierarchy[user.role] || 0\<close>, is the
  rank of the specification for every role that does not name a member of
  \<^verbatim>\<open>Object.prototype\<close>, and is not a number for one that does.
\<close>

lemma userLevel_recognised:
  "key \<notin> set Object_prototype \<Longrightarrow>
   js_or (roleHierarchy key) (JSNumber 0) = JSNumber (int (rank_spec key))"
  by (simp add: roleHierarchy_def rank_spec_def js_or_def)

lemma userLevel_inherited:
  "key \<in> set Object_prototype \<Longrightarrow>
   js_or (roleHierarchy key) (JSNumber 0) = JSInherited"
  by (auto simp add: roleHierarchy_def Object_prototype_def js_or_def)

lemma requireRole_unauthenticated:
  "session_user req = None \<Longrightarrow>
   requireRole r req = Respond (401, JsonObj [(''error'', ''Authentication required'')])"
  by (simp add: requireRole_def)

lemma requireRole_authenticated_not_401:
  "session_user req = Some user \<Longrightarrow>
   requireRole r req \<noteq> Respond (401, JsonObj [(''error'', ''Authentication required'')])"
  by (simp add: requireRole_def Let_def)

text \<open>
  For a session whose role does not name a member of \<^verbatim>\<open>Object.prototype\<close>, the
  middleware decides by the ranks of the specification.
\<close>

lemma requireRole_recognised:
  assumes "session_user req = Some user"
    and "ToPropertyKey (get_prop user ''role'') \<notin> set Object_prototype"
  shows "requireRole r req =
     (if rank_spec (ToPropertyKey (get_prop user ''role'')) < rank_spec (role_name r)
      then Respond (403, JsonObj [(''error'', ''Insufficient permissions'')]) else Next)"
  using assms
  by (cases r)
     (auto simp add: requireRole_def roleHierarchy_def rank_spec_def js_or_def js_lt_def Let_def)

text \<open>
  For a role that names such a member the lookup gives a function or an object, which
  \<^verbatim>\<open>|| 0\<close> keeps; its comparison with a number is false and the request passes.
\<close>

lemma requireRole_inherited:
  assumes "session_user req = Some user"
    and "ToPropertyKey (get_prop user ''role'') \<in> set Object_prototype"
  shows "requireRole r req = Next"
proof -
  have "roleHierarchy (ToPropertyKey (get_prop user ''role'')) = JSInherited"
    using assms(2) by (auto simp add: roleHierarchy_def Object_prototype_def)
  then show ?thesis
    using assms(1) by (simp add: requireRole_def js_or_def js_lt_def)
qed

lemma route_single:
  "route [m] handler req st =
     (case m req of Next \<Rightarrow> handler req st | Respond r \<Rightarrow> (r, st))"
  by (simp add: route_def split: outcome.splits)

lemma updateUserRole_eq:
  "updateUserRole uid role st =
     (case users st uid of
        None \<Rightarrow> Inl ''User not found''
      | Some user \<Rightarrow>
          Inr (AList.update ''role'' (Some role) user,
               st\<lparr>users := (users st)(uid \<mapsto> AList.update ''role'' (Some role) user)\<rparr>))"
  by (simp add: updateUserRole_def Let_def split: option.splits)

text \<open>
  C4. The claim: \<open>hasRole r1 r2\<close> compares the ranks 3, 2, 1 of admin, technician, user;
  every other string has rank 0 and is refused against any required role of positive
  rank; rank and \<open>hasRole\<close> never throw. The client's \<open>hasRole\<close> does so (lemma
  \<open>hasRole_matches_rank\<close>). The server's rank with default,
  \<^verbatim>\<open>roleHierarchy[user.role] || 0\<close>, does not: the string \<^verbatim>\<open>constructor\<close> is none of the
  three roles, yet its level is the inherited function and not 0, and a session with that
  role is let through against each of the three required roles, where the client refuses
  it.
\<close>

theorem server_level_of_inherited_member_name:
  "''constructor'' \<notin> set (map role_name [Admin, Technician, User])
   \<and> rank_spec ''constructor'' = 0
   \<and> js_or (roleHierarchy ''constructor'') (JSNumber 0) = JSInherited
   \<and> js_or (roleHierarchy ''constructor'') (JSNumber 0) \<noteq> JSNumber 0
   \<and> get_prop example_inherited_role_user ''role'' = Some ''constructor''
   \<and> requireRole User example_inherited_role_request = (Next :: unit outcome)
   \<and> requireRole Technician example_inherited_role_request = (Next :: unit outcome)
   \<and> requireRole Admin example_inherited_role_request = (Next :: unit outcome)
   \<and> \<not> hasRole ''constructor'' User
   \<and> \<not> hasRole ''constructor'' Technician
   \<and> \<not> hasRole ''constructor'' Admin"
proof -
  have member: "''constructor'' \<in> set Object_prototype"
    by (simp add: Object_prototype_def)
  have role: "get_prop example_inherited_role_user ''role'' = Some ''constructor''"
    by (simp add: example_inherited_role_user_def get_prop_def)
  have session: "session_user example_inherited_role_request = Some example_inherited_role_user"
    by (simp add: example_inherited_role_request_def)
  have pass: "requireRole r example_inherited_role_request = (Next :: unit outcome)" for r
    by (rule requireRole_inherited [OF session]) (simp add: role ToPropertyKey_def member)
  have refuse: "\<not> hasRole ''constructor'' r" for r
    using rank_role_name_pos [of r] by (simp add: hasRole_rank rank_spec_def)
  show ?thesis
    using userLevel_inherited [OF member] role pass refuse
    by (simp add: rank_spec_def)
qed

text \<open>
  C5. The claim: \<open>requireRole minRole\<close> answers 401 exactly when the request has no
  authenticated session, 403 exactly when a session exists whose role ranks below
  \<open>minRole\<close>, and otherwise lets the request through, so that the handler runs with a
  role of sufficient rank. The code does not do this for a session whose role is
  \<^verbatim>\<open>constructor\<close>: the rank of that role is 0, below the rank 3 of admin, and yet
  \<open>requireRole Admin\<close> calls \<^verbatim>\<open>next()\<close>; the role-changing route behind it then
  answers 200 and makes user \<^verbatim>\<open>u2\<close> an admin.
\<close>

theorem requireRole_passes_inherited_member_name:
  "rank_spec (ToPropertyKey (get_prop example_inherited_role_user ''role'')) = 0
   \<and> rank_spec (role_name Admin) = 3
   \<and> requireRole Admin example_inherited_role_request = (Next :: unit outcome)
   \<and> fst (fst (api_admin_users_role example_inherited_role_request example_storage
                 :: unit response \<times> (unit, unit) MemStorage)) = 200
   \<and> users (snd (api_admin_users_role example_inherited_role_request example_storage
                 :: unit response \<times> (unit, unit) MemStorage)) ''u2''
       = Some [(''id'', Some ''u2''), (''username'', Some ''cliente''),
               (''password'', Some ''c57397b9.5e853a04''), (''role'', Some ''admin'')]"
proof -
  have key: "ToPropertyKey (get_prop example_inherited_role_user ''role'') = ''constructor''"
    by (simp add: example_inherited_role_user_def get_prop_def ToPropertyKey_def)
  have "''constructor'' \<in> set Object_prototype"
    by (simp add: Object_prototype_def)
  with key have pass: "requireRole Admin example_inherited_role_request = (Next :: unit outcome)"
    by (intro requireRole_inherited [of _ example_inherited_role_user])
       (simp_all add: example_inherited_role_request_def)
  have run: "(api_admin_users_role example_inherited_role_request example_storage
               :: unit response \<times> (unit, unit) MemStorage)
             = user_role_handler example_inherited_role_request example_storage"
    by (simp add: api_admin_users_role_def route_single pass)
  show ?thesis
    unfolding run
    by (simp add: key pass rank_spec_def)
       (simp add: user_role_handler_def updateUserRole_eq example_inherited_role_request_def
          example_storage_def get_prop_def)
qed

lemma auth_context_rank:
  "auth_context (Some u) p = (rank_spec (role_name (minRole_spec p)) \<le> rank_spec (cached_role u))"
  by (cases p)
     (simp_all add: canAccessAnalytics_def canManageSensors_def canExportData_def
        canManageUsers_def canAccessAdvancedSettings_def hasRole_rank)

text \<open>
  Client and server agree on every permission for a role that does not name a member of
  \<^verbatim>\<open>Object.prototype\<close>.
\<close>

lemma client_server_agree:
  assumes "map_of u ''role'' = Some r" and "get_prop user ''role'' = Some r"
    and "r \<notin> set Object_prototype" and "session_user req = Some user"
  shows "auth_context (Some u) p = (requireRole (minRole_spec p) req = (Next :: 'a outcome))"
proof -
  have "rank_spec (cached_role u) = rank_spec r \<or> (r = [] \<and> cached_role u = ''user'')"
    using assms(1) by (simp add: cached_role_def or_default_def)
  moreover have "2 \<le> rank_spec (role_name (minRole_spec p))"
    by (cases p) (simp_all add: rank_spec_def)
  moreover have "rank_spec [] = 0" "rank_spec ''user'' = 1"
    by (simp_all add: rank_spec_def)
  ultimately have "(rank_spec (role_name (minRole_spec p)) \<le> rank_spec (cached_role u))
      = (rank_spec (role_name (minRole_spec p)) \<le> rank_spec r)"
    by auto
  then show ?thesis
    using requireRole_recognised [of req user "minRole_spec p"] assms
    by (auto simp add: auth_context_rank ToPropertyKey_def)
qed

text \<open>
  C3. The claim: for every role string r and every permission p, the client predicate for
  p on a cached identity with role r is true exactly when the server's
  \<open>requireRole (minRole_spec p)\<close> lets a session with role r pass; in particular for user
  management and \<open>requireRole Admin\<close>. At the role \<^verbatim>\<open>constructor\<close> the two differ: the
  client, caching the identity that the login response carries, denies user management,
  while the server middleware lets the session pass.
\<close>

theorem client_denies_where_server_passes:
  "map_of (stringify example_inherited_role_user) ''role'' = Some ''constructor''
   \<and> get_prop example_inherited_role_user ''role'' = Some ''constructor''
   \<and> \<not> auth_context (Some (stringify example_inherited_role_user)) CanManageUsers
   \<and> \<not> canManageUsers ''constructor''
   \<and> requireRole (minRole_spec CanManageUsers) example_inherited_role_request
        = (Next :: unit outcome)"
  by (simp add: example_inherited_role_user_def example_inherited_role_request_def
        get_prop_def cached_role_def or_default_def canManageUsers_def hasRole_def
        requireRole_def ToPropertyKey_def roleHierarchy_def Object_prototype_def
        js_ge_def js_or_def js_lt_def)


section \<open>Properties of login and logout\<close>

lemma stringify_values:
  "(k, v) \<in> set (stringify obj) \<longleftrightarrow> (k, Some v) \<in> set obj"
  by (induction obj rule: stringify.induct) auto

lemma stringify_map_of:
  "map_of obj k = Some (Some v) \<Longrightarrow> map_of (stringify obj) k = Some v"
  by (induction obj rule: stringify.induct) (auto split: if_splits)

lemma stringify_no_key:
  "k \<notin> fst ` set obj \<Longrightarrow> k \<notin> fst ` set (stringify obj)"
  by (induction obj rule: stringify.induct) auto

text \<open>
  After a successful identity check the session is regenerated: the store entry of the
  request's earlier id is destroyed and the identity is bound to the session under the
  generated id.
\<close>

lemma establish_session_eq:
  "establish_session env data req store =
     ((200, JsonObj (stringify (identity_fields data))),
      req\<lparr>sessionID := new_sessionID env, session_user := Some (identity_fields data)\<rparr>,
      store(sessionID req := None))"
  by (simp add: establish_session_def regenerate_def MemoryStore_destroy_def Let_def)

text \<open>The ways in which the login handler ends.\<close>

lemma login_cases:
  fixes env :: login_env and req :: request and store :: session_store
  defines "r \<equiv> (login env req store :: 'r response \<times> request \<times> session_store)"
  shows "r = ((400, JsonObj [(''error'', ''Username and password are required'')]), req, store)
       \<or> r = ((401, JsonObj [(''error'', ''Invalid username or password'')]), req, store)
       \<or> r = (internal_error, req, store)
       \<or> (\<exists>b status data. body req = Some b
            \<and> \<not> falsy (get_prop b ''username'') \<and> \<not> falsy (get_prop b ''password'')
            \<and> FastAPI_login env = Reply status (Json data)
            \<and> 200 \<le> status \<and> status \<le> 299
            \<and> r = establish_session env data req store)"
  unfolding r_def login_def
  by (auto split: option.splits fetch_result.splits body_read.splits)

lemma login_200:
  fixes payload :: "'a payload"
  assumes "login env req store = ((200, payload), req', store')"
  shows "\<exists>b status data. body req = Some b
           \<and> \<not> falsy (get_prop b ''username'') \<and> \<not> falsy (get_prop b ''password'')
           \<and> FastAPI_login env = Reply status (Json data)
           \<and> 200 \<le> status \<and> status \<le> 299
           \<and> payload = JsonObj (stringify (identity_fields data))
           \<and> req' = req\<lparr>sessionID := new_sessionID env,
                            session_user := Some (identity_fields data)\<rparr>
           \<and> store' = store(sessionID req := None)"
  using login_cases [of env req store, where 'r = 'a] assms
  by (auto simp add: internal_error_def establish_session_eq)

lemma example_login:
  "login example_env example_login_request example_session_store =
     ((200, JsonObj [(''id'', ''1''), (''username'', ''admin''), (''role'', ''admin''),
                     (''access_token'', ''eyJhbGciOi''), (''token_type'', ''bearer'')]
            :: unit payload),
      example_login_request\<lparr>sessionID := ''s2'', session_user := Some example_identity\<rparr>,
      example_session_store)"
proof -
  have "identity_fields example_identity = example_identity"
    by (simp add: identity_fields_def example_identity_def get_prop_def)
  moreover have "stringify example_identity =
      [(''id'', ''1''), (''username'', ''admin''), (''role'', ''admin''),
       (''access_token'', ''eyJhbGciOi''), (''token_type'', ''bearer'')]"
    by (simp add: example_identity_def)
  moreover have "example_session_store(''s1'' := None) = example_session_store"
    by (auto simp add: example_session_store_def)
  ultimately show ?thesis
    by (simp add: login_def establish_session_eq example_env_def example_login_request_def
          falsy_def get_prop_def)
qed

text \<open>
  C1. The claim: the body of the 200 response to a login contains exactly the fields id,
  username and role, and nothing secret that the collaborator returned, in particular no
  \<^verbatim>\<open>access_token\<close> and no \<^verbatim>\<open>token_type\<close>. The code does not do this: at a login where
  the collaborator returns a bearer token, the body carries \<^verbatim>\<open>access_token\<close> and
  \<^verbatim>\<open>token_type\<close> with the collaborator's values, whereas \<^verbatim>\<open>GET /api/user\<close> on the
  session just established answers with id, username and role only.
\<close>

theorem login_response_carries_token:
  "fst (login example_env example_login_request example_session_store) =
     (200, JsonObj [(''id'', ''1''), (''username'', ''admin''), (''role'', ''admin''),
                    (''access_token'', ''eyJhbGciOi''), (''token_type'', ''bearer'')]
           :: unit payload)
   \<and> api_user (fst (snd (login example_env example_login_request example_session_store
                           :: unit response \<times> request \<times> session_store))) =
     (200, JsonObj [(''id'', ''1''), (''username'', ''admin''), (''role'', ''admin'')]
           :: unit payload)"
  by (simp add: example_login)
     (simp add: api_user_def example_identity_def get_prop_def)

text \<open>
  C6. A login attempt that does not succeed ends as follows, by its input. Without a
  parsed body it is answered 500. With a missing or empty username or password it is
  answered 400. With both present: 500 when the collaborator is unreachable or its body
  cannot be read; 401 when the collaborator answers 401; 500 when it answers any other
  status outside 200 to 299; and 500 when it answers inside 200 to 299 with a body that
  is not JSON or is null. Whenever the answer is not 200, the request's session and the
  session store are exactly what they were, nothing is written when the response ends,
  and the body is one of three fixed error messages, so it carries no identity data. The
  answer is 200 only when the collaborator accepted credentials that were both present,
  and only then is a session bound to an identity.
\<close>

theorem failed_login_leaves_session:
  fixes resp :: "'a response"
  assumes run: "login env req store = (resp, req', store')"
  shows "(body req = None \<longrightarrow> resp = internal_error)
       \<and> (\<forall>b. body req = Some b \<longrightarrow>
            (falsy (get_prop b ''username'') \<or> falsy (get_prop b ''password'') \<longrightarrow>
               resp = (400, JsonObj [(''error'', ''Username and password are required'')]))
          \<and> (\<not> falsy (get_prop b ''username'') \<and> \<not> falsy (get_prop b ''password'') \<longrightarrow>
               (FastAPI_login env = Unreachable \<longrightarrow> resp = internal_error)
             \<and> (\<forall>status read. FastAPI_login env = Reply status read \<longrightarrow>
                  (read = ReadFails \<longrightarrow> resp = internal_error)
                \<and> (read \<noteq> ReadFails \<and> status = 401 \<longrightarrow>
                     resp = (401, JsonObj [(''error'', ''Invalid username or password'')]))
                \<and> (\<not> (200 \<le> status \<and> status \<le> 299) \<and> status \<noteq> 401 \<longrightarrow>
                     resp = internal_error)
                \<and> (200 \<le> status \<and> status \<le> 299 \<and> (read = NotJson \<or> read = JsonNull) \<longrightarrow>
                     resp = internal_error))))
       \<and> (fst resp \<noteq> 200 \<longrightarrow>
            req' = req \<and> store' = store
          \<and> end_of_response req' store' = end_of_response req store
          \<and> (\<exists>msg \<in> {''Username and password are required'',
                        ''Invalid username or password'', ''Internal server error''}.
                snd resp = JsonObj [(''error'', msg)]))
       \<and> (fst resp = 200 \<longrightarrow>
            (\<exists>b status data. body req = Some b
               \<and> \<not> falsy (get_prop b ''username'') \<and> \<not> falsy (get_prop b ''password'')
               \<and> FastAPI_login env = Reply status (Json data)
               \<and> 200 \<le> status \<and> status \<le> 299
               \<and> session_user req' = Some (identity_fields data)))"
proof (intro conjI)
  show "body req = None \<longrightarrow> resp = internal_error"
    using run by (auto simp add: login_def)
next
  show "\<forall>b. body req = Some b \<longrightarrow>
            (falsy (get_prop b ''username'') \<or> falsy (get_prop b ''password'') \<longrightarrow>
               resp = (400, JsonObj [(''error'', ''Username and password are required'')]))
          \<and> (\<not> falsy (get_prop b ''username'') \<and> \<not> falsy (get_prop b ''password'') \<longrightarrow>
               (FastAPI_login env = Unreachable \<longrightarrow> resp = internal_error)
             \<and> (\<forall>status read. FastAPI_login env = Reply status read \<longrightarrow>
                  (read = ReadFails \<longrightarrow> resp = internal_error)
                \<and> (read \<noteq> ReadFails \<and> status = 401 \<longrightarrow>
                     resp = (401, JsonObj [(''error'', ''Invalid username or password'')]))
                \<and> (\<not> (200 \<le> status \<and> status \<le> 299) \<and> status \<noteq> 401 \<longrightarrow>
                     resp = internal_error)
                \<and> (200 \<le> status \<and> status \<le> 299 \<and> (read = NotJson \<or> read = JsonNull) \<longrightarrow>
                     resp = internal_error)))"
    using run by (auto simp add: login_def split: body_read.splits if_splits)
next
  from login_cases [of env req store, where 'r = 'a] run
  consider "fst resp \<in> {400, 401, 500}" "req' = req" "store' = store"
      "\<exists>msg \<in> {''Username and password are required'', ''Invalid username or password'',
                 ''Internal server error''}.
          snd resp = JsonObj [(''error'', msg)]"
    | "fst resp = 200"
    by (auto simp add: internal_error_def establish_session_eq)
  then show "fst resp \<noteq> 200 \<longrightarrow>
            req' = req \<and> store' = store
          \<and> end_of_response req' store' = end_of_response req store
          \<and> (\<exists>msg \<in> {''Username and password are required'',
                        ''Invalid username or password'', ''Internal server error''}.
                snd resp = JsonObj [(''error'', msg)])"
    by cases simp_all
next
  show "fst resp = 200 \<longrightarrow>
            (\<exists>b status data. body req = Some b
               \<and> \<not> falsy (get_prop b ''username'') \<and> \<not> falsy (get_prop b ''password'')
               \<and> FastAPI_login env = Reply status (Json data)
               \<and> 200 \<le> status \<and> status \<le> 299
               \<and> session_user req' = Some (identity_fields data))"
  proof
    assume "fst resp = 200"
    with run have "login env req store = ((200, snd resp), req', store')"
      by (metis prod.collapse)
    from login_200 [OF this] show "\<exists>b status data. body req = Some b
               \<and> \<not> falsy (get_prop b ''username'') \<and> \<not> falsy (get_prop b ''password'')
               \<and> FastAPI_login env = Reply status (Json data)
               \<and> 200 \<le> status \<and> status \<le> 299
               \<and> session_user req' = Some (identity_fields data)"
      by auto
  qed
qed

lemma example_rejected_login:
  "login example_rejecting_env example_login_request example_session_store =
     ((401, JsonObj [(''error'', ''Invalid username or password'')] :: unit payload),
      example_login_request, example_session_store)"
  by (simp add: login_def example_rejecting_env_def example_login_request_def
        falsy_def get_prop_def)

theorem failed_login_leaves_session_witness:
  "login example_rejecting_env example_login_request example_session_store =
     ((401, JsonObj [(''error'', ''Invalid username or password'')] :: unit payload),
      example_login_request, example_session_store)
   \<and> (401::nat) \<noteq> 200
   \<and> end_of_response example_login_request example_session_store = example_session_store"
proof -
  from failed_login_leaves_session [OF example_rejected_login]
  have "fst (401::nat, JsonObj [(''error'', ''Invalid username or password'')]
                     :: unit payload) \<noteq> 200 \<longrightarrow>
      end_of_response example_login_request example_session_store
        = end_of_response example_login_request example_session_store"
    by blast
  moreover have "end_of_response example_login_request example_session_store
      = example_session_store"
    by (simp add: end_of_response_def example_login_request_def)
  ultimately show ?thesis
    using example_rejected_login by simp
qed

lemma logout_eq:
  "logout req store =
     ((200, Text ''OK''), req\<lparr>session_user := None\<rparr>, store(sessionID req := None))"
  by (simp add: logout_def destroy_def MemoryStore_destroy_def)

text \<open>
  C8. Logout answers 200 for every request and every store, also when the request has no
  authenticated session and its session id is not in the store. It is idempotent: a
  second logout answers 200 as well, no session is stored under the id of either request
  afterwards, and for the same session id the second call leaves the store as the first
  left it.
\<close>

theorem logout_idempotent:
  fixes r1 r2 :: "'a response \<times> request \<times> session_store"
  assumes "r1 = logout req store"
    and "r2 = logout req2 (end_of_response (fst (snd r1)) (snd (snd r1)))"
  shows "fst r1 = (200, Text ''OK'') \<and> fst r2 = (200, Text ''OK'')
       \<and> session_user (fst (snd r1)) = None \<and> session_user (fst (snd r2)) = None
       \<and> end_of_response (fst (snd r1)) (snd (snd r1)) (sessionID req) = None
       \<and> end_of_response (fst (snd r2)) (snd (snd r2)) (sessionID req) = None
       \<and> end_of_response (fst (snd r2)) (snd (snd r2)) (sessionID req2) = None
       \<and> (sessionID req2 = sessionID req \<longrightarrow> snd (snd r2) = snd (snd r1))"
  using assms by (auto simp add: logout_eq end_of_response_def)

theorem logout_idempotent_witness:
  "session_user example_anonymous_request = None
   \<and> example_session_store (sessionID example_anonymous_request) = None
   \<and> fst (logout example_anonymous_request example_session_store
          :: unit response \<times> request \<times> session_store) = (200, Text ''OK'')
   \<and> fst (logout example_anonymous_request
            (end_of_response
               (fst (snd (logout example_anonymous_request example_session_store
                            :: unit response \<times> request \<times> session_store)))
               (snd (snd (logout example_anonymous_request example_session_store
                            :: unit response \<times> request \<times> session_store))))
          :: unit response \<times> request \<times> session_store) = (200, Text ''OK'')"
  using logout_idempotent [OF refl refl, of example_anonymous_request example_session_store
      example_anonymous_request, where 'a = unit]
  by (simp add: example_anonymous_request_def example_session_store_def)


section \<open>Properties of the storage and of the routes\<close>

text \<open>
  C9. \<open>updateUserRole\<close> on an existing user succeeds and changes only that user's role:
  the stored user has the new role, every other property of the user (id, username and
  password among them) is what it was, every other user of the store is unchanged, and so
  are the other collections.
\<close>

theorem updateUserRole_frame:
  assumes "users st uid = Some user"
  shows "\<exists>updatedUser st'.
           updateUserRole uid role st = Inr (updatedUser, st')
         \<and> users st' uid = Some updatedUser
         \<and> get_prop updatedUser ''role'' = Some role
         \<and> (\<forall>k. k \<noteq> ''role'' \<longrightarrow> map_of updatedUser k = map_of user k)
         \<and> get_prop updatedUser ''id'' = get_prop user ''id''
         \<and> get_prop updatedUser ''username'' = get_prop user ''username''
         \<and> get_prop updatedUser ''password'' = get_prop user ''password''
         \<and> (\<forall>other. other \<noteq> uid \<longrightarrow> users st' other = users st other)
         \<and> sensors st' = sensors st \<and> measurements st' = measurements st"
  using assms
  by (simp add: updateUserRole_eq get_prop_def update_conv')

lemma example_storage_u2:
  "users example_storage ''u2'' =
     Some [(''id'', Some ''u2''), (''username'', Some ''cliente''),
           (''password'', Some ''c57397b9.5e853a04''), (''role'', Some ''user'')]"
  by (simp add: example_storage_def)

theorem updateUserRole_frame_witness:
  "users example_storage ''u2'' =
     Some [(''id'', Some ''u2''), (''username'', Some ''cliente''),
           (''password'', Some ''c57397b9.5e853a04''), (''role'', Some ''user'')]
   \<and> (\<exists>updatedUser st'.
         updateUserRole ''u2'' ''technician'' example_storage = Inr (updatedUser, st')
       \<and> get_prop updatedUser ''role'' = Some ''technician''
       \<and> get_prop updatedUser ''password'' = Some ''c57397b9.5e853a04''
       \<and> users st' ''u1'' = users example_storage ''u1'')"
proof -
  from updateUserRole_frame [OF example_storage_u2, of "''technician''"]
  obtain updatedUser st' where
    "updateUserRole ''u2'' ''technician'' example_storage = Inr (updatedUser, st')"
    "get_prop updatedUser ''role'' = Some ''technician''"
    "get_prop updatedUser ''password'' = Some ''c57397b9.5e853a04''"
    "users st' ''u1'' = users example_storage ''u1''"
    by (auto simp add: get_prop_def)
  with example_storage_u2 show ?thesis by blast
qed

text \<open>
  C7. For a request that has passed \<open>requireRole Admin\<close> and carries a body,
  \<^verbatim>\<open>PATCH /api/admin/users/:id/role\<close> answers 400 when the supplied role is not one of
  admin, technician, user; otherwise 404 when no user with the given id exists; and
  otherwise 200 with the updated user record, which has the new role and no password
  field, the store holding the updated user.
\<close>

theorem user_role_route_responses:
  fixes st :: "('s, 'x) MemStorage"
  assumes "requireRole Admin req = (Next :: 'a outcome)" and "body req = Some b"
  shows "(get_prop b ''role'' \<notin> {Some ''admin'', Some ''technician'', Some ''user''} \<longrightarrow>
            (api_admin_users_role req st :: 'a response \<times> ('s, 'x) MemStorage)
              = ((400, JsonObj [(''message'', ''Invalid role'')]), st))
       \<and> (get_prop b ''role'' \<in> {Some ''admin'', Some ''technician'', Some ''user''} \<longrightarrow>
            users st (params_id req) = None \<longrightarrow>
            (api_admin_users_role req st :: 'a response \<times> ('s, 'x) MemStorage)
              = ((404, JsonObj [(''message'', ''User not found'')]), st))
       \<and> (\<forall>role user. get_prop b ''role'' = Some role \<longrightarrow>
            role \<in> {''admin'', ''technician'', ''user''} \<longrightarrow>
            users st (params_id req) = Some user \<longrightarrow>
            (\<exists>fields st'.
               (api_admin_users_role req st :: 'a response \<times> ('s, 'x) MemStorage)
                 = ((200, JsonObj fields), st')
             \<and> fields = stringify (AList.delete ''password''
                                     (AList.update ''role'' (Some role) user))
             \<and> ''password'' \<notin> fst ` set fields
             \<and> map_of fields ''role'' = Some role
             \<and> users st' (params_id req) = Some (AList.update ''role'' (Some role) user)))"
proof (intro conjI impI allI)
  assume "get_prop b ''role'' \<notin> {Some ''admin'', Some ''technician'', Some ''user''}"
  with assms
  show "(api_admin_users_role req st :: 'a response \<times> ('s, 'x) MemStorage)
          = ((400, JsonObj [(''message'', ''Invalid role'')]), st)"
    by (auto simp add: api_admin_users_role_def route_single user_role_handler_def
          split: option.splits)
next
  assume "get_prop b ''role'' \<in> {Some ''admin'', Some ''technician'', Some ''user''}"
    and "users st (params_id req) = None"
  with assms
  show "(api_admin_users_role req st :: 'a response \<times> ('s, 'x) MemStorage)
          = ((404, JsonObj [(''message'', ''User not found'')]), st)"
    by (auto simp add: api_admin_users_role_def route_single user_role_handler_def
          updateUserRole_eq)
next
  fix role user
  assume r: "get_prop b ''role'' = Some role" "role \<in> {''admin'', ''technician'', ''user''}"
    and u: "users st (params_id req) = Some user"
  let ?upd = "AList.update ''role'' (Some role) user"
  have 1: "''password'' \<notin> fst ` set (stringify (AList.delete ''password'' ?upd))"
    by (rule stringify_no_key) (auto simp add: AList.delete_eq)
  have "map_of (AList.delete ''password'' ?upd) ''role'' = Some (Some role)"
    by (simp add: delete_conv' update_conv')
  then have 2: "map_of (stringify (AList.delete ''password'' ?upd)) ''role'' = Some role"
    by (rule stringify_map_of)
  from assms r u
  have "(api_admin_users_role req st :: 'a response \<times> ('s, 'x) MemStorage) =
      ((200, JsonObj (stringify (AList.delete ''password'' ?upd))),
       st\<lparr>users := (users st)(params_id req \<mapsto> ?upd)\<rparr>)"
    by (auto simp add: api_admin_users_role_def route_single user_role_handler_def
          updateUserRole_eq)
  with 1 2
  show "\<exists>fields st'.
          (api_admin_users_role req st :: 'a response \<times> ('s, 'x) MemStorage)
            = ((200, JsonObj fields), st')
        \<and> fields = stringify (AList.delete ''password''
                                (AList.update ''role'' (Some role) user))
        \<and> ''password'' \<notin> fst ` set fields
        \<and> map_of fields ''role'' = Some role
        \<and> users st' (params_id req) = Some (AList.update ''role'' (Some role) user)"
    by simp
qed

lemma example_admin_passes:
  "requireRole Admin example_admin_request = (Next :: unit outcome)"
  by (rule trans [OF requireRole_recognised [of _ example_identity]])
     (simp_all add: example_admin_request_def example_identity_def get_prop_def
        ToPropertyKey_def Object_prototype_def rank_spec_def)

theorem user_role_route_responses_witness:
  "requireRole Admin example_admin_request = (Next :: unit outcome)
   \<and> body example_admin_request = Some [(''role'', Some ''technician'')]
   \<and> get_prop [(''role'', Some ''technician'')] ''role'' = Some ''technician''
   \<and> ''technician'' \<in> {''admin'', ''technician'', ''user''}
   \<and> users example_storage (params_id example_admin_request) =
       Some [(''id'', Some ''u2''), (''username'', Some ''cliente''),
             (''password'', Some ''c57397b9.5e853a04''), (''role'', Some ''user'')]
   \<and> fst (api_admin_users_role example_admin_request example_storage
            :: unit response \<times> (unit, unit) MemStorage) =
       (200, JsonObj [(''id'', ''u2''), (''username'', ''cliente''),
                      (''role'', ''technician'')])"
proof -
  have b: "body example_admin_request = Some [(''role'', Some ''technician'')]"
    by (simp add: example_admin_request_def)
  have r: "get_prop [(''role'', Some ''technician'')] ''role'' = Some ''technician''"
    by (simp add: get_prop_def)
  have m: "''technician'' \<in> {''admin'', ''technician'', ''user''}"
    by simp
  have u: "users example_storage (params_id example_admin_request) =
       Some [(''id'', Some ''u2''), (''username'', Some ''cliente''),
             (''password'', Some ''c57397b9.5e853a04''), (''role'', Some ''user'')]"
    by (simp add: example_admin_request_def example_storage_u2)
  from user_role_route_responses [OF example_admin_passes b, of example_storage] r m u
  have "\<exists>fields st'.
          (api_admin_users_role example_admin_request example_storage
             :: unit response \<times> (unit, unit) MemStorage) = ((200, JsonObj fields), st')
        \<and> fields = stringify (AList.delete ''password''
            (AList.update ''role'' (Some ''technician'')
               [(''id'', Some ''u2''), (''username'', Some ''cliente''),
                (''password'', Some ''c57397b9.5e853a04''), (''role'', Some ''user'')]))"
    by blast
  then have "fst (api_admin_users_role example_admin_request example_storage
            :: unit response \<times> (unit, unit) MemStorage) =
       (200, JsonObj [(''id'', ''u2''), (''username'', ''cliente''),
                      (''role'', ''technician'')])"
    by (auto simp add: AList.delete_eq)
  with example_admin_passes b r m u show ?thesis by blast
qed

text \<open>
  C10. \<^verbatim>\<open>GET /api/sensors\<close> and \<^verbatim>\<open>GET /api/measurements\<close> run no authentication or
  role middleware. For every request, with or without a session, the answer is decided by
  the storage call alone: 200 with the collection it returns, or 500 when it fails, and so
  never 401 or 403. Over the in-memory storage the call does not fail: the answer is 200
  with the stored sensors, and 200 with the stored measurements, newest first.
\<close>

theorem public_collection_routes:
  fixes g :: "'st \<Rightarrow> string + 's list" and h :: "'st \<Rightarrow> string + 'm list"
    and ms :: "('s, 'x) MemStorage"
  shows "api_sensors g req st =
           (case g st of
              Inr xs \<Rightarrow> ((200, JsonArray xs), st)
            | Inl e \<Rightarrow> ((500, JsonObj [(''message'', ''Failed to fetch sensors'')]), st))
       \<and> api_measurements h req st =
           (case h st of
              Inr xs \<Rightarrow> ((200, JsonArray xs), st)
            | Inl e \<Rightarrow> ((500, JsonObj [(''message'', ''Failed to fetch measurements'')]), st))
       \<and> fst (fst (api_sensors g req st)) \<in> {200, 500}
       \<and> fst (fst (api_measurements h req st)) \<in> {200, 500}
       \<and> api_sensors getSensors req ms = ((200, JsonArray (map snd (sensors ms))), ms)
       \<and> (\<exists>xs. api_measurements getMeasurements req ms = ((200, JsonArray xs), ms)
             \<and> mset xs = mset (map snd (measurements ms))
             \<and> sorted (map (\<lambda>m. - timestamp m) xs))"
  by (auto simp add: api_sensors_def api_measurements_def route_def sensors_handler_def
        measurements_handler_def getSensors_def getMeasurements_def split: sum.splits)

theorem public_collection_routes_witness:
  "api_sensors getSensors example_anonymous_request example_storage =
     ((200, JsonArray [()]), example_storage)
   \<and> fst (fst (api_measurements getMeasurements example_anonymous_request example_storage))
       \<in> {200, 500}"
proof -
  note routes = public_collection_routes [where g = getSensors and h = getMeasurements
      and req = example_anonymous_request and st = example_storage and ms = example_storage]
  from routes have "api_sensors getSensors example_anonymous_request example_storage =
      ((200, JsonArray (map snd (sensors example_storage))), example_storage)"
    by blast
  moreover have "map snd (sensors example_storage) = [()]"
    by (simp add: example_storage_def)
  moreover from routes
  have "fst (fst (api_measurements getMeasurements example_anonymous_request example_storage))
      \<in> {200, 500}"
    by blast
  ultimately show ?thesis by simp
qed


end
